theory Spec2Isabelle
  imports Main "HOL-Library.Word" "HOL-Library.Sublist"
begin

section \<open>JavaScript strings\<close>

text \<open>
  A JavaScript string is a sequence of 16-bit code units. \<open>js_lit\<close> embeds the ASCII
  literals of the source.
\<close>

type_synonym js_string = "16 word list"

definition js_lit :: "string \<Rightarrow> js_string" where
  "js_lit s = map (\<lambda>c. of_nat (of_char c)) s"

text \<open>
  \<open>String.prototype.trim\<close> removes the WhiteSpace and LineTerminator code points of
  ECMAScript from both ends: TAB, LF, VT, FF, CR, SP, NBSP, U+1680, U+2000 to U+200A,
  U+2028, U+2029, U+202F, U+205F, U+3000 and U+FEFF. All of them are single code units.
\<close>

definition isWhiteSpace :: "16 word \<Rightarrow> bool" where
  "isWhiteSpace c =
     (c \<in> set [0x9, 0xA, 0xB, 0xC, 0xD, 0x20, 0xA0, 0x1680, 0x2028, 0x2029, 0x202F,
                0x205F, 0x3000, 0xFEFF]
      \<or> (0x2000 \<le> c \<and> c \<le> 0x200A))"

definition trim :: "js_string \<Rightarrow> js_string" where
  "trim s = rev (dropWhile isWhiteSpace (rev (dropWhile isWhiteSpace s)))"

section \<open>Data model\<close>

text \<open>
  Modelled from the spec: the declaration of \<open>Todo\<close> (\<open>types/Todo\<close>) is not among the
  sources; its four fields are the ones \<open>handleAddTodo\<close> and \<open>createTodo\<close> write. The field
  \<open>id\<close> is named \<open>id_todo\<close> here.
\<close>

record Todo =
  id_todo :: int
  title :: js_string
  userId :: int
  completed :: bool

text \<open>
  Modelled from the spec: the declaration of \<open>Filter\<close> (\<open>types/Filter\<close>) is not among the
  sources; the enumeration has the three members \<open>All\<close>, \<open>Active\<close> and \<open>Completed\<close>.
\<close>

datatype Filter = Filter_All | Filter_Active | Filter_Completed

definition USER_ID :: int where
  "USER_ID = 2159"

text \<open>The calls of the API module: \<open>getTodos\<close>, \<open>createTodo\<close> and \<open>deleteTodo\<close>.\<close>

datatype api_call =
    GetTodos int
  | CreateTodo js_string int bool
  | DeleteTodo int

text \<open>
  The continuation the component attaches to a call in flight: the chain of
  \<open>handleAddTodo\<close>, of \<open>handleDeleteTodo\<close> (with its \<open>todoId\<close>), of one element of the batch
  of \<open>handleClearCompletedTodos\<close> (with its \<open>id\<close>), and of the initial load.
\<close>

datatype chain =
    AddChain
  | DeleteChain int
  | ClearChain int
  | LoadChain

text \<open>
  What a promise of the component rejects with: the string given to \<open>Promise.reject\<close>, or
  the \<open>Error\<close> object built by \<open>new Error(error)\<close>, whose message is the string form of
  the failure of the call.
\<close>

datatype js_value = JSString js_string | JSError js_string

datatype outcome = Fulfilled | Rejected js_value

text \<open>
  The state of the component (the six \<open>useState\<close> cells) and of its environment: the
  clock in milliseconds, the due times of the pending \<open>setTimeout\<close> callbacks (they are
  never cancelled), the calls issued so far, the calls in flight with their chains, and
  the input element (\<open>inputRef\<close> attached or not, number of \<open>focus()\<close> calls). The cell
  \<open>filter\<close> is named \<open>filter_by\<close> here.
\<close>

record app =
  todosFromServer :: "Todo list"
  filter_by :: Filter
  errorMessage :: js_string
  isNotificationHidden :: bool
  tempTodo :: "Todo option"
  deletingTodoIds :: "int list"
  clock :: nat
  timeouts :: "nat list"
  calls :: "api_call list"
  in_flight :: "chain list"
  inputRef :: bool
  focus_calls :: nat

definition initial :: app where
  "initial = \<lparr> todosFromServer = [], filter_by = Filter_All, errorMessage = [],
      isNotificationHidden = True, tempTodo = None, deletingTodoIds = [],
      clock = 0, timeouts = [], calls = [], in_flight = [],
      inputRef = True, focus_calls = 0 \<rparr>"

section \<open>Notification\<close>

definition showErrorMessage :: "js_string \<Rightarrow> app \<Rightarrow> app" where
  "showErrorMessage message a =
     a\<lparr> errorMessage := message, isNotificationHidden := False,
        timeouts := timeouts a @ [clock a + 3000] \<rparr>"

text \<open>The callback given to \<open>setTimeout\<close>.\<close>

definition timeout_callback :: "app \<Rightarrow> app" where
  "timeout_callback a = a\<lparr> errorMessage := [], isNotificationHidden := True \<rparr>"

text \<open>
  Time passes by \<open>d\<close> milliseconds: every pending callback that is due by then runs, in
  the order it was scheduled, and leaves the list of pending callbacks.
\<close>

definition advance :: "nat \<Rightarrow> app \<Rightarrow> app" where
  "advance d a =
     (let t = clock a + d;
          due = filter (\<lambda>x. x \<le> t) (timeouts a);
          a' = fold (\<lambda>_. timeout_callback) due a
      in a'\<lparr> clock := t, timeouts := filter (\<lambda>x. t < x) (timeouts a) \<rparr>)"

section \<open>Derived views\<close>

definition filterTodos :: "Todo list \<Rightarrow> Filter \<Rightarrow> Todo list" where
  "filterTodos todos filterBy =
     (case filterBy of
        Filter_Completed \<Rightarrow> filter (\<lambda>todo. completed todo) todos
      | Filter_Active \<Rightarrow> filter (\<lambda>todo. \<not> completed todo) todos
      | _ \<Rightarrow> todos)"

definition visibleTodos :: "app \<Rightarrow> Todo list" where
  "visibleTodos a = filterTodos (todosFromServer a) (filter_by a)"

definition activeTodosCount :: "app \<Rightarrow> nat" where
  "activeTodosCount a = length (filter (\<lambda>todo. \<not> completed todo) (todosFromServer a))"

definition allTodosCompleted :: "app \<Rightarrow> bool" where
  "allTodosCompleted a = (activeTodosCount a = 0)"

definition hasCompletedTodos :: "app \<Rightarrow> bool" where
  "hasCompletedTodos a = list_ex (\<lambda>todo. completed todo) (todosFromServer a)"

section \<open>Adding a todo\<close>

text \<open>
  \<open>handleAddTodo\<close> returns a promise: \<open>Some r\<close> is a promise that is already settled with
  \<open>r\<close> when the handler returns, \<open>None\<close> the promise of the chain on the call it issued,
  which \<open>settle_add\<close> settles.
\<close>

definition handleAddTodo :: "js_string \<Rightarrow> app \<Rightarrow> app \<times> outcome option" where
  "handleAddTodo title_in a =
     (let a1 = a\<lparr> errorMessage := [] \<rparr>;
          trimmedTitle = trim title_in
      in if length trimmedTitle = 0
         then (showErrorMessage (js_lit ''Title should not be empty'') a1,
               Some (Rejected (JSString (js_lit ''Title is empty''))))
         else (a1\<lparr> tempTodo := Some \<lparr> id_todo = 0, title = trimmedTitle,
                                      userId = USER_ID, completed = False \<rparr>,
                    calls := calls a1 @ [CreateTodo trimmedTitle USER_ID False],
                    in_flight := in_flight a1 @ [AddChain] \<rparr>,
               None))"

definition add_then :: "Todo \<Rightarrow> app \<Rightarrow> app" where
  "add_then newTodo a = a\<lparr> todosFromServer := todosFromServer a @ [newTodo] \<rparr>"

text \<open>The \<open>catch\<close> callbacks show the message and throw \<open>new Error(error)\<close>.\<close>

definition add_catch :: "js_string \<Rightarrow> app \<Rightarrow> app \<times> js_value" where
  "add_catch error a = (showErrorMessage (js_lit ''Unable to add a todo'') a, JSError error)"

definition add_finally :: "app \<Rightarrow> app" where
  "add_finally a = a\<lparr> tempTodo := None \<rparr>"

text \<open>
  The chain \<open>.then(...).catch(...).finally(...)\<close> on a settled call: \<open>Inr\<close> carries the
  value the call fulfilled with, \<open>Inl\<close> the string form of what it rejected with. The
  result is the state and the outcome of the promise the handler returned.
\<close>

definition settle_add :: "js_string + Todo \<Rightarrow> app \<Rightarrow> app \<times> outcome" where
  "settle_add r a =
     (case r of
        Inr newTodo \<Rightarrow> (add_finally (add_then newTodo a), Fulfilled)
      | Inl error \<Rightarrow>
          (case add_catch error a of (a', thrown) \<Rightarrow> (add_finally a', Rejected thrown)))"

section \<open>Deleting a todo\<close>

definition focus_input :: "app \<Rightarrow> app" where
  "focus_input a = (if inputRef a then a\<lparr> focus_calls := focus_calls a + 1 \<rparr> else a)"

definition handleDeleteTodo :: "int \<Rightarrow> app \<Rightarrow> app" where
  "handleDeleteTodo todoId a =
     a\<lparr> deletingTodoIds := [todoId],
        calls := calls a @ [DeleteTodo todoId],
        in_flight := in_flight a @ [DeleteChain todoId] \<rparr>"

definition delete_then :: "int \<Rightarrow> app \<Rightarrow> app" where
  "delete_then todoId a =
     a\<lparr> todosFromServer := filter (\<lambda>todo. id_todo todo \<noteq> todoId) (todosFromServer a) \<rparr>"

definition delete_catch :: "js_string \<Rightarrow> app \<Rightarrow> app \<times> js_value" where
  "delete_catch error a =
     (showErrorMessage (js_lit ''Unable to delete a todo'') a, JSError error)"

definition delete_finally :: "app \<Rightarrow> app" where
  "delete_finally a = focus_input (a\<lparr> deletingTodoIds := [] \<rparr>)"

definition settle_delete :: "int \<Rightarrow> js_string + unit \<Rightarrow> app \<Rightarrow> app \<times> outcome" where
  "settle_delete todoId r a =
     (case r of
        Inr _ \<Rightarrow> (delete_finally (delete_then todoId a), Fulfilled)
      | Inl error \<Rightarrow>
          (case delete_catch error a of (a', thrown) \<Rightarrow> (delete_finally a', Rejected thrown)))"

section \<open>Clearing the completed todos\<close>

text \<open>
  The handler returns nothing: the promise of \<open>Promise.all\<close> is dropped. The calls are
  issued in the order of the list, all before the handler returns.
\<close>

definition handleClearCompletedTodos :: "app \<Rightarrow> app" where
  "handleClearCompletedTodos a =
     (let completedTodoIds =
            map id_todo (filter (\<lambda>todo. completed todo) (todosFromServer a))
      in a\<lparr> deletingTodoIds := completedTodoIds,
            calls := calls a @ map DeleteTodo completedTodoIds,
            in_flight := in_flight a @ map ClearChain completedTodoIds \<rparr>)"

definition clear_then :: "int \<Rightarrow> app \<Rightarrow> app" where
  "clear_then i a =
     a\<lparr> todosFromServer := filter (\<lambda>todo. id_todo todo \<noteq> i) (todosFromServer a) \<rparr>"

definition clear_catch :: "js_string \<Rightarrow> app \<Rightarrow> app \<times> js_value" where
  "clear_catch error a =
     (showErrorMessage (js_lit ''Unable to delete a todo'') a, JSError error)"

definition clear_finally :: "app \<Rightarrow> app" where
  "clear_finally a = focus_input (a\<lparr> deletingTodoIds := [] \<rparr>)"

text \<open>One element of the batch settles.\<close>

definition settle_clear :: "int \<Rightarrow> js_string + unit \<Rightarrow> app \<Rightarrow> app \<times> outcome" where
  "settle_clear i r a =
     (case r of
        Inr _ \<Rightarrow> (clear_finally (clear_then i a), Fulfilled)
      | Inl error \<Rightarrow>
          (case clear_catch error a of (a', thrown) \<Rightarrow> (clear_finally a', Rejected thrown)))"

section \<open>Initial load\<close>

definition mount :: "app \<Rightarrow> app" where
  "mount a = a\<lparr> calls := calls a @ [GetTodos USER_ID],
               in_flight := in_flight a @ [LoadChain] \<rparr>"

text \<open>The \<open>catch\<close> of the load does not throw: its promise fulfils.\<close>

definition settle_load :: "js_string + Todo list \<Rightarrow> app \<Rightarrow> app \<times> outcome" where
  "settle_load r a =
     (case r of
        Inr todos \<Rightarrow> (a\<lparr> todosFromServer := todos \<rparr>, Fulfilled)
      | Inl error \<Rightarrow> (showErrorMessage (js_lit ''Unable to load todos'') a, Fulfilled))"

definition mounted :: app where
  "mounted = mount initial"

section \<open>Events\<close>

text \<open>
  What a call in flight settles with: a failure (with its string form), or the value of
  the kind the call returns.
\<close>

datatype response =
    Failed js_string
  | Created Todo
  | Deleted
  | Loaded "Todo list"

text \<open>
  The events of the single-threaded component after it is mounted: the intents of the
  presentation layer (\<open>onAdd\<close>, \<open>onDelete\<close>, \<open>onClearCompletedTodos\<close>, \<open>onFilterClick\<close>,
  \<open>onClose\<close>), the settlement of the \<open>k\<close>-th call in flight, and the passing of time.
\<close>

datatype event =
    Add js_string
  | Delete int
  | ClearCompleted
  | SetFilter Filter
  | Close bool
  | Settle nat response
  | Advance nat

definition remove_nth :: "nat \<Rightarrow> 'a list \<Rightarrow> 'a list" where
  "remove_nth k xs = take k xs @ drop (Suc k) xs"

text \<open>
  A settlement is possible when the \<open>k\<close>-th call is in flight and the response is of the
  kind of that call; it runs the chain attached to the call.
\<close>

definition settle :: "nat \<Rightarrow> response \<Rightarrow> app \<Rightarrow> (app \<times> outcome) option" where
  "settle k r a =
     (if k < length (in_flight a)
      then (let a' = a\<lparr> in_flight := remove_nth k (in_flight a) \<rparr>
            in case (in_flight a ! k, r) of
                 (AddChain, Created newTodo) \<Rightarrow> Some (settle_add (Inr newTodo) a')
               | (AddChain, Failed error) \<Rightarrow> Some (settle_add (Inl error) a')
               | (DeleteChain todoId, Deleted) \<Rightarrow> Some (settle_delete todoId (Inr ()) a')
               | (DeleteChain todoId, Failed error) \<Rightarrow>
                   Some (settle_delete todoId (Inl error) a')
               | (ClearChain i, Deleted) \<Rightarrow> Some (settle_clear i (Inr ()) a')
               | (ClearChain i, Failed error) \<Rightarrow> Some (settle_clear i (Inl error) a')
               | (LoadChain, Loaded todos) \<Rightarrow> Some (settle_load (Inr todos) a')
               | (LoadChain, Failed error) \<Rightarrow> Some (settle_load (Inl error) a')
               | _ \<Rightarrow> None)
      else None)"

definition step :: "event \<Rightarrow> app \<Rightarrow> app option" where
  "step e a =
     (case e of
        Add title_in \<Rightarrow> Some (fst (handleAddTodo title_in a))
      | Delete todoId \<Rightarrow> Some (handleDeleteTodo todoId a)
      | ClearCompleted \<Rightarrow> Some (handleClearCompletedTodos a)
      | SetFilter f \<Rightarrow> Some (a\<lparr> filter_by := f \<rparr>)
      | Close hidden \<Rightarrow> Some (a\<lparr> isNotificationHidden := hidden \<rparr>)
      | Settle k r \<Rightarrow> map_option fst (settle k r a)
      | Advance d \<Rightarrow> Some (advance d a))"

fun run :: "event list \<Rightarrow> app \<Rightarrow> app option" where
  "run [] a = Some a"
| "run (e # es) a = (case step e a of None \<Rightarrow> None | Some a' \<Rightarrow> run es a')"

section \<open>The view as the specification words it\<close>

text \<open>
  The predicate of a filter value: \<open>Active\<close> selects the items with \<open>completed == false\<close>,
  \<open>Completed\<close> those with \<open>completed == true\<close>, \<open>All\<close> every item. The specified view is
  the list of the todos that the predicate of the current filter selects.
\<close>

definition selects :: "Filter \<Rightarrow> Todo \<Rightarrow> bool" where
  "selects f todo =
     (case f of
        Filter_All \<Rightarrow> True
      | Filter_Active \<Rightarrow> completed todo = False
      | Filter_Completed \<Rightarrow> completed todo = True)"

definition spec_visibleTodos :: "app \<Rightarrow> Todo list" where
  "spec_visibleTodos a = filter (selects (filter_by a)) (todosFromServer a)"

text \<open>The events that are no intent to add or delete: they issue no call.\<close>

definition settles_only :: "event \<Rightarrow> bool" where
  "settles_only e =
     (case e of
        Add _ \<Rightarrow> False
      | Delete _ \<Rightarrow> False
      | ClearCompleted \<Rightarrow> False
      | _ \<Rightarrow> True)"


section \<open>Sample states\<close>

definition todo1 :: Todo where
  "todo1 = \<lparr> id_todo = 1, title = js_lit ''milk'', userId = USER_ID, completed = True \<rparr>"

definition todo2 :: Todo where
  "todo2 = \<lparr> id_todo = 2, title = js_lit ''eggs'', userId = USER_ID, completed = True \<rparr>"

definition todo3 :: Todo where
  "todo3 = \<lparr> id_todo = 3, title = js_lit ''tea'', userId = USER_ID, completed = False \<rparr>"

definition todo4 :: Todo where
  "todo4 = \<lparr> id_todo = 4, title = js_lit ''jam'', userId = USER_ID, completed = False \<rparr>"

text \<open>The mounted component after its load has fulfilled with three todos.\<close>

definition loaded :: app where
  "loaded = fst (settle_load (Inr [todo1, todo2, todo3]) (mounted\<lparr> in_flight := [] \<rparr>))"

definition session :: "event list" where
  "session = [Settle 0 (Loaded [todo1, todo2, todo3]), SetFilter Filter_Active,
              Delete 1, Settle 0 Deleted]"

text \<open>\<open>Clear completed\<close> is clicked in \<open>loaded\<close>: two calls are in flight.\<close>

definition batch :: app where
  "batch = handleClearCompletedTodos loaded"

definition batch_events :: "event list" where
  "batch_events = [Settle 1 Deleted, Advance 10, Settle 0 (Failed (js_lit ''503''))]"




section \<open>Basic facts\<close>

lemmas chain_defs = showErrorMessage_def settle_add_def settle_delete_def settle_clear_def
  settle_load_def add_then_def add_catch_def add_finally_def delete_then_def delete_catch_def
  delete_finally_def clear_then_def clear_catch_def clear_finally_def

lemmas sample_defs = loaded_def mounted_def mount_def initial_def
  todo1_def todo2_def todo3_def todo4_def

lemma focus_input_fields [simp]:
  "todosFromServer (focus_input a) = todosFromServer a"
  "filter_by (focus_input a) = filter_by a"
  "errorMessage (focus_input a) = errorMessage a"
  "isNotificationHidden (focus_input a) = isNotificationHidden a"
  "tempTodo (focus_input a) = tempTodo a"
  "deletingTodoIds (focus_input a) = deletingTodoIds a"
  "clock (focus_input a) = clock a"
  "timeouts (focus_input a) = timeouts a"
  "calls (focus_input a) = calls a"
  "in_flight (focus_input a) = in_flight a"
  by (simp_all add: focus_input_def)

lemma loaded_fields:
  "todosFromServer loaded = [todo1, todo2, todo3]"
  "in_flight loaded = []"
  "calls loaded = [GetTodos USER_ID]"
  "deletingTodoIds loaded = []"
  by (simp_all add: loaded_def mounted_def mount_def initial_def settle_load_def)

lemma loaded_reachable: "run [Settle 0 (Loaded [todo1, todo2, todo3])] mounted = Some loaded"
  by (simp add: loaded_def mounted_def mount_def initial_def step_def settle_def
      remove_nth_def settle_load_def)

lemma handleAddTodo_nonempty:
  "trim title_in \<noteq> [] \<Longrightarrow>
   handleAddTodo title_in a =
     (a\<lparr> errorMessage := [],
         tempTodo := Some \<lparr> id_todo = 0, title = trim title_in,
                           userId = USER_ID, completed = False \<rparr>,
         calls := calls a @ [CreateTodo (trim title_in) USER_ID False],
         in_flight := in_flight a @ [AddChain] \<rparr>, None)"
  by (simp add: handleAddTodo_def Let_def)

lemma handleAddTodo_empty:
  "trim title_in = [] \<Longrightarrow>
   handleAddTodo title_in a =
     (showErrorMessage (js_lit ''Title should not be empty'') (a\<lparr> errorMessage := [] \<rparr>),
      Some (Rejected (JSString (js_lit ''Title is empty''))))"
  by (simp add: handleAddTodo_def Let_def)

text \<open>The call issued last settles: its chain runs on the state without it.\<close>

lemma settle_last:
  "settle (length cs) r (a\<lparr> in_flight := cs @ [c] \<rparr>) =
     (case (c, r) of
        (AddChain, Created newTodo) \<Rightarrow> Some (settle_add (Inr newTodo) (a\<lparr> in_flight := cs \<rparr>))
      | (AddChain, Failed error) \<Rightarrow> Some (settle_add (Inl error) (a\<lparr> in_flight := cs \<rparr>))
      | (DeleteChain todoId, Deleted) \<Rightarrow>
          Some (settle_delete todoId (Inr ()) (a\<lparr> in_flight := cs \<rparr>))
      | (DeleteChain todoId, Failed error) \<Rightarrow>
          Some (settle_delete todoId (Inl error) (a\<lparr> in_flight := cs \<rparr>))
      | (ClearChain i, Deleted) \<Rightarrow> Some (settle_clear i (Inr ()) (a\<lparr> in_flight := cs \<rparr>))
      | (ClearChain i, Failed error) \<Rightarrow>
          Some (settle_clear i (Inl error) (a\<lparr> in_flight := cs \<rparr>))
      | (LoadChain, Loaded todos) \<Rightarrow> Some (settle_load (Inr todos) (a\<lparr> in_flight := cs \<rparr>))
      | (LoadChain, Failed error) \<Rightarrow> Some (settle_load (Inl error) (a\<lparr> in_flight := cs \<rparr>))
      | _ \<Rightarrow> None)"
  by (simp add: settle_def Let_def remove_nth_def)

lemma filterTodos_selects: "filterTodos todos f = filter (selects f) todos"
  by (cases f) (simp_all add: filterTodos_def selects_def [abs_def])

section \<open>The visible todos\<close>

lemma session_runs: "run session mounted \<noteq> None"
  by (simp add: session_def mounted_def mount_def initial_def step_def settle_def
      remove_nth_def handleDeleteTodo_def chain_defs)

lemma session_visible: "visibleTodos (the (run session mounted)) = [todo3]"
  by (simp add: session_def visibleTodos_def filterTodos_def step_def settle_def
      remove_nth_def handleDeleteTodo_def chain_defs sample_defs)

text \<open>
  Claim C8. In every state that a sequence of events reaches from the mounted component,
  and under every filter value, \<open>visibleTodos\<close> is the list of the todos that the
  predicate of the filter selects (\<open>Active\<close>: not completed, \<open>Completed\<close>: completed,
  \<open>All\<close>: every item), in the order they have in \<open>todosFromServer\<close>.
\<close>

theorem visibleTodos_is_filtered_todos:
  "run es mounted = Some a \<Longrightarrow>
   visibleTodos a = spec_visibleTodos a \<and> subseq (visibleTodos a) (todosFromServer a)"
  by (simp add: visibleTodos_def spec_visibleTodos_def filterTodos_selects)

theorem visibleTodos_is_filtered_todos_witness:
  "run session mounted \<noteq> None
   \<and> visibleTodos (the (run session mounted)) = spec_visibleTodos (the (run session mounted))
   \<and> subseq (visibleTodos (the (run session mounted)))
        (todosFromServer (the (run session mounted)))
   \<and> visibleTodos (the (run session mounted)) = [todo3]"
proof -
  from session_runs obtain a where a: "run session mounted = Some a"
    by blast
  then have t: "the (run session mounted) = a"
    by simp
  have v: "visibleTodos a = [todo3]"
    using session_visible t by simp
  show ?thesis
    unfolding t using session_runs visibleTodos_is_filtered_todos [OF a] v by blast
qed


section \<open>The add intent\<close>

text \<open>
  Claim C5. For every title whose trimmed form is not empty, the intent to add shows the
  placeholder and puts one call in flight. When that call succeeds, the todo the server
  returned is appended at the end of \<open>todosFromServer\<close>, whose other items keep their
  places, so the list is one item longer; when it fails the list is unchanged. In both
  outcomes the \<open>finally\<close> callback runs last and \<open>tempTodo\<close> is cleared. The chain does
  the same in whatever state \<open>b\<close> the call settles.
\<close>

theorem add_appends_created_todo:
  assumes "trim title_in \<noteq> []"
  shows "\<exists>a1 a2 a3.
      step (Add title_in) a = Some a1
    \<and> tempTodo a1 = Some \<lparr> id_todo = 0, title = trim title_in,
                            userId = USER_ID, completed = False \<rparr>
    \<and> todosFromServer a1 = todosFromServer a
    \<and> in_flight a1 = in_flight a @ [AddChain]
    \<and> step (Settle (length (in_flight a)) (Created newTodo)) a1 = Some a2
    \<and> todosFromServer a2 = todosFromServer a @ [newTodo]
    \<and> length (todosFromServer a2) = Suc (length (todosFromServer a))
    \<and> a2 = add_finally (add_then newTodo (a1\<lparr> in_flight := in_flight a \<rparr>))
    \<and> tempTodo a2 = None
    \<and> step (Settle (length (in_flight a)) (Failed error)) a1 = Some a3
    \<and> todosFromServer a3 = todosFromServer a
    \<and> a3 = add_finally (fst (add_catch error (a1\<lparr> in_flight := in_flight a \<rparr>)))
    \<and> tempTodo a3 = None
    \<and> (\<forall>b. todosFromServer (fst (settle_add (Inr newTodo) b)) = todosFromServer b @ [newTodo]
           \<and> tempTodo (fst (settle_add (Inr newTodo) b)) = None
           \<and> todosFromServer (fst (settle_add (Inl error) b)) = todosFromServer b
           \<and> tempTodo (fst (settle_add (Inl error) b)) = None)"
  using assms
  by (simp add: step_def handleAddTodo_nonempty settle_last chain_defs)

theorem add_appends_created_todo_witness:
  "trim [0x20, 0x6A, 0x61, 0x6D, 0x20] \<noteq> []
   \<and> (\<exists>a1 a2 a3.
      step (Add [0x20, 0x6A, 0x61, 0x6D, 0x20]) loaded = Some a1
    \<and> step (Settle 0 (Created todo4)) a1 = Some a2
    \<and> todosFromServer a2 = [todo1, todo2, todo3, todo4]
    \<and> tempTodo a2 = None
    \<and> step (Settle 0 (Failed (js_lit ''503''))) a1 = Some a3
    \<and> todosFromServer a3 = [todo1, todo2, todo3]
    \<and> tempTodo a3 = None)"
proof -
  have h: "trim [0x20, 0x6A, 0x61, 0x6D, 0x20] \<noteq> []"
    by (simp add: trim_def isWhiteSpace_def)
  from add_appends_created_todo [OF h, of loaded todo4 "js_lit ''503''"]
  show ?thesis
    using h by (simp add: loaded_fields) blast
qed

text \<open>
  Claim C6. For every title whose trimmed form is empty, \<open>handleAddTodo\<close> shows the
  notification \<open>Title should not be empty\<close>, issues no call and puts none in flight,
  leaves \<open>todosFromServer\<close> and \<open>tempTodo\<close> unchanged, and returns a promise that is
  already rejected when the handler returns.
\<close>

theorem add_empty_title_is_rejected_locally:
  assumes "trim title_in = []"
  shows "errorMessage (fst (handleAddTodo title_in a)) = js_lit ''Title should not be empty''
    \<and> \<not> isNotificationHidden (fst (handleAddTodo title_in a))
    \<and> calls (fst (handleAddTodo title_in a)) = calls a
    \<and> in_flight (fst (handleAddTodo title_in a)) = in_flight a
    \<and> todosFromServer (fst (handleAddTodo title_in a)) = todosFromServer a
    \<and> tempTodo (fst (handleAddTodo title_in a)) = tempTodo a
    \<and> snd (handleAddTodo title_in a) = Some (Rejected (JSString (js_lit ''Title is empty'')))"
  using assms by (simp add: handleAddTodo_empty showErrorMessage_def)

theorem add_empty_title_is_rejected_locally_witness:
  "trim [0x20, 0x9, 0x20] = []
   \<and> errorMessage (fst (handleAddTodo [0x20, 0x9, 0x20] loaded)) = js_lit ''Title should not be empty''
   \<and> \<not> isNotificationHidden (fst (handleAddTodo [0x20, 0x9, 0x20] loaded))
   \<and> calls (fst (handleAddTodo [0x20, 0x9, 0x20] loaded)) = [GetTodos USER_ID]
   \<and> in_flight (fst (handleAddTodo [0x20, 0x9, 0x20] loaded)) = []
   \<and> todosFromServer (fst (handleAddTodo [0x20, 0x9, 0x20] loaded)) = [todo1, todo2, todo3]
   \<and> snd (handleAddTodo [0x20, 0x9, 0x20] loaded) = Some (Rejected (JSString (js_lit ''Title is empty'')))"
proof -
  have h: "trim [0x20, 0x9, 0x20] = []"
    by (simp add: trim_def isWhiteSpace_def)
  from add_empty_title_is_rejected_locally [OF h, of loaded] h show ?thesis
    by (simp add: loaded_fields)
qed

section \<open>The delete intent\<close>

lemma length_filter_distinct_key:
  "distinct (map f xs) \<Longrightarrow> x \<in> f ` set xs \<Longrightarrow>
   Suc (length (filter (\<lambda>t. f t \<noteq> x) xs)) = length xs"
proof (induction xs)
  case Nil
  then show ?case by simp
next
  case (Cons y ys)
  show ?case
  proof (cases "f y = x")
    case True
    with Cons.prems have "x \<notin> f ` set ys" by auto
    then have "filter (\<lambda>t. f t \<noteq> x) ys = ys" by (auto simp: filter_id_conv)
    with True show ?thesis by simp
  next
    case False
    with Cons show ?thesis by auto
  qed
qed

lemma filter_sample_ids:
  "filter (\<lambda>todo. id_todo todo \<noteq> 1) [todo1, todo2, todo3] = [todo2, todo3]"
  "distinct (map id_todo [todo1, todo2, todo3])"
  "id_todo todo1 = 1" "id_todo todo2 = 2" "id_todo todo3 = 3"
  by (simp_all add: todo1_def todo2_def todo3_def)

text \<open>
  Claim C7. For every id present in \<open>todosFromServer\<close>: when the call of the delete
  intent succeeds, the items left are the items with another id, in their order (with
  distinct ids, exactly one item is gone); when it fails, \<open>todosFromServer\<close> is unchanged
  and the notification \<open>Unable to delete a todo\<close> is shown. In both outcomes
  \<open>deletingTodoIds\<close> is empty once the call has settled. The chain does the same in
  whatever state \<open>b\<close> the call settles.
\<close>

theorem delete_removes_only_that_id:
  assumes "todoId \<in> id_todo ` set (todosFromServer a)"
  shows "\<exists>a1 a2 a3.
      step (Delete todoId) a = Some a1
    \<and> step (Settle (length (in_flight a)) Deleted) a1 = Some a2
    \<and> todosFromServer a2 = filter (\<lambda>todo. id_todo todo \<noteq> todoId) (todosFromServer a)
    \<and> set (todosFromServer a2) = {todo \<in> set (todosFromServer a). id_todo todo \<noteq> todoId}
    \<and> length (todosFromServer a2) < length (todosFromServer a)
    \<and> (distinct (map id_todo (todosFromServer a)) \<longrightarrow>
         Suc (length (todosFromServer a2)) = length (todosFromServer a))
    \<and> deletingTodoIds a2 = []
    \<and> step (Settle (length (in_flight a)) (Failed error)) a1 = Some a3
    \<and> todosFromServer a3 = todosFromServer a
    \<and> errorMessage a3 = js_lit ''Unable to delete a todo''
    \<and> \<not> isNotificationHidden a3
    \<and> deletingTodoIds a3 = []
    \<and> (\<forall>b. todosFromServer (fst (settle_delete todoId (Inr ()) b))
             = filter (\<lambda>todo. id_todo todo \<noteq> todoId) (todosFromServer b)
           \<and> deletingTodoIds (fst (settle_delete todoId (Inr ()) b)) = []
           \<and> todosFromServer (fst (settle_delete todoId (Inl error) b)) = todosFromServer b
           \<and> deletingTodoIds (fst (settle_delete todoId (Inl error) b)) = [])"
proof -
  from assms
  have "length (filter (\<lambda>todo. id_todo todo \<noteq> todoId) (todosFromServer a))
          < length (todosFromServer a)"
    by (auto simp: length_filter_less)
  moreover have "distinct (map id_todo (todosFromServer a)) \<Longrightarrow>
      Suc (length (filter (\<lambda>todo. id_todo todo \<noteq> todoId) (todosFromServer a)))
        = length (todosFromServer a)"
    by (rule length_filter_distinct_key [OF _ assms])
  ultimately show ?thesis
    by (simp add: step_def handleDeleteTodo_def settle_last chain_defs)
qed

theorem delete_removes_only_that_id_witness:
  "1 \<in> id_todo ` set (todosFromServer loaded)
   \<and> distinct (map id_todo (todosFromServer loaded))
   \<and> (\<exists>a1 a2 a3.
      step (Delete 1) loaded = Some a1
    \<and> step (Settle 0 Deleted) a1 = Some a2
    \<and> todosFromServer a2 = [todo2, todo3]
    \<and> Suc (length (todosFromServer a2)) = length (todosFromServer loaded)
    \<and> deletingTodoIds a2 = []
    \<and> step (Settle 0 (Failed (js_lit ''503''))) a1 = Some a3
    \<and> todosFromServer a3 = [todo1, todo2, todo3]
    \<and> errorMessage a3 = js_lit ''Unable to delete a todo''
    \<and> \<not> isNotificationHidden a3
    \<and> deletingTodoIds a3 = [])"
proof -
  have h: "1 \<in> id_todo ` set (todosFromServer loaded)"
    by (simp add: loaded_fields filter_sample_ids)
  have d: "distinct (map id_todo (todosFromServer loaded))"
    by (simp add: loaded_fields filter_sample_ids)
  from delete_removes_only_that_id [OF h, of "js_lit ''503''"]
  obtain a1 a2 a3 where
    "step (Delete 1) loaded = Some a1"
    "step (Settle 0 Deleted) a1 = Some a2"
    "todosFromServer a2 = [todo2, todo3]"
    "distinct (map id_todo (todosFromServer loaded)) \<longrightarrow>
       Suc (length (todosFromServer a2)) = length (todosFromServer loaded)"
    "deletingTodoIds a2 = []"
    "step (Settle 0 (Failed (js_lit ''503''))) a1 = Some a3"
    "todosFromServer a3 = [todo1, todo2, todo3]"
    "errorMessage a3 = js_lit ''Unable to delete a todo''"
    "\<not> isNotificationHidden a3"
    "deletingTodoIds a3 = []"
    unfolding loaded_fields filter_sample_ids list.size by blast
  with h d show ?thesis
    by blast
qed

text \<open>
  Claim C10. For every id that no item of \<open>todosFromServer\<close> has, a delete intent whose
  call succeeds leaves \<open>todosFromServer\<close> unchanged and shows no notification: the
  message, the visibility of the notification and the pending timers are the ones there
  were, and the promise of the handler fulfils.
\<close>

theorem delete_of_absent_id_changes_nothing:
  assumes "todoId \<notin> id_todo ` set (todosFromServer a)"
  shows "\<exists>a1 a2.
      step (Delete todoId) a = Some a1
    \<and> todosFromServer a1 = todosFromServer a
    \<and> errorMessage a1 = errorMessage a
    \<and> isNotificationHidden a1 = isNotificationHidden a
    \<and> timeouts a1 = timeouts a
    \<and> settle (length (in_flight a)) Deleted a1 = Some (a2, Fulfilled)
    \<and> todosFromServer a2 = todosFromServer a
    \<and> errorMessage a2 = errorMessage a
    \<and> isNotificationHidden a2 = isNotificationHidden a
    \<and> timeouts a2 = timeouts a"
proof -
  from assms
  have "filter (\<lambda>todo. id_todo todo \<noteq> todoId) (todosFromServer a) = todosFromServer a"
    by (auto simp: filter_id_conv)
  then show ?thesis
    by (simp add: step_def handleDeleteTodo_def settle_last chain_defs)
qed

theorem delete_of_absent_id_changes_nothing_witness:
  "7 \<notin> id_todo ` set (todosFromServer loaded)
   \<and> (\<exists>a1 a2.
      step (Delete 7) loaded = Some a1
    \<and> settle 0 Deleted a1 = Some (a2, Fulfilled)
    \<and> todosFromServer a2 = [todo1, todo2, todo3]
    \<and> errorMessage a2 = errorMessage loaded
    \<and> isNotificationHidden a2 = isNotificationHidden loaded
    \<and> timeouts a2 = timeouts loaded)"
proof -
  have h: "7 \<notin> id_todo ` set (todosFromServer loaded)"
    by (simp add: loaded_fields filter_sample_ids)
  from delete_of_absent_id_changes_nothing [OF h] h show ?thesis
    by (simp add: loaded_fields) blast
qed


section \<open>The batch of delete calls\<close>

lemma settle_calls: "settle k r a = Some (a', out) \<Longrightarrow> calls a' = calls a"
  by (auto simp: settle_def Let_def chain_defs split: if_splits chain.splits response.splits)

lemma fold_timeout_calls: "calls (fold (\<lambda>_. timeout_callback) xs a) = calls a"
  by (induction xs arbitrary: a) (simp_all add: timeout_callback_def)

lemma settles_only_step_calls:
  "settles_only e \<Longrightarrow> step e a = Some a' \<Longrightarrow> calls a' = calls a"
  by (cases e) (auto simp: settles_only_def step_def advance_def Let_def fold_timeout_calls
      dest: settle_calls)

lemma settles_only_run_calls:
  "list_all settles_only es \<Longrightarrow> run es a = Some a' \<Longrightarrow> calls a' = calls a"
proof (induction es arbitrary: a)
  case Nil
  then show ?case by simp
next
  case (Cons e es)
  from Cons.prems obtain b where b: "step e a = Some b" and r: "run es b = Some a'"
    by (auto split: option.splits)
  from Cons.prems have "settles_only e" and "list_all settles_only es"
    by simp_all
  then have "calls b = calls a" and "calls a' = calls b"
    using b r settles_only_step_calls [of e a b] Cons.IH [of b] by simp_all
  then show ?case by simp
qed

lemma batch_runs: "run batch_events batch \<noteq> None"
  by (simp add: batch_events_def batch_def handleClearCompletedTodos_def step_def settle_def
      remove_nth_def advance_def chain_defs sample_defs focus_input_def)

text \<open>
  Claim C9. In every state, \<open>handleClearCompletedTodos\<close> issues, before it returns, one
  delete call for each item of \<open>todosFromServer\<close> whose \<open>completed\<close> flag is true at that
  time, in the order of the list, and puts one chain in flight for each. The calls are
  fixed then: whatever settlements, filter changes and timers follow, the calls issued
  stay the same.
\<close>

theorem clearCompleted_issues_one_call_per_completed_item:
  "calls (handleClearCompletedTodos a) =
     calls a @ map (\<lambda>todo. DeleteTodo (id_todo todo))
                 (filter (\<lambda>todo. completed todo) (todosFromServer a))
   \<and> in_flight (handleClearCompletedTodos a) =
     in_flight a @ map (\<lambda>todo. ClearChain (id_todo todo))
                     (filter (\<lambda>todo. completed todo) (todosFromServer a))
   \<and> todosFromServer (handleClearCompletedTodos a) = todosFromServer a
   \<and> (list_all settles_only es \<and> run es (handleClearCompletedTodos a) = Some a' \<longrightarrow>
        calls a' =
          calls a @ map (\<lambda>todo. DeleteTodo (id_todo todo))
                      (filter (\<lambda>todo. completed todo) (todosFromServer a)))"
proof -
  have c: "calls (handleClearCompletedTodos a) =
     calls a @ map (\<lambda>todo. DeleteTodo (id_todo todo))
                 (filter (\<lambda>todo. completed todo) (todosFromServer a))"
    by (simp add: handleClearCompletedTodos_def Let_def comp_def)
  have "list_all settles_only es \<Longrightarrow> run es (handleClearCompletedTodos a) = Some a' \<Longrightarrow>
      calls a' = calls (handleClearCompletedTodos a)"
    by (rule settles_only_run_calls)
  with c show ?thesis
    by (simp add: handleClearCompletedTodos_def Let_def comp_def)
qed

theorem clearCompleted_issues_one_call_per_completed_item_witness:
  "list_all settles_only batch_events \<and> run batch_events batch \<noteq> None \<and>
   calls (the (run batch_events batch)) = [GetTodos USER_ID, DeleteTodo 1, DeleteTodo 2]"
proof -
  have p: "list_all settles_only batch_events"
    by (simp add: batch_events_def settles_only_def)
  from batch_runs obtain a' where r: "run batch_events (handleClearCompletedTodos loaded) = Some a'"
    unfolding batch_def by blast
  have "calls a' = calls loaded @ map (\<lambda>todo. DeleteTodo (id_todo todo))
      (filter (\<lambda>todo. completed todo) (todosFromServer loaded))"
    using clearCompleted_issues_one_call_per_completed_item [of loaded batch_events a'] p r
    by blast
  also have "\<dots> = [GetTodos USER_ID, DeleteTodo 1, DeleteTodo 2]"
    by (simp add: loaded_fields) (simp add: todo1_def todo2_def todo3_def)
  finally show ?thesis
    using p r batch_runs by (simp add: batch_def)
qed

text \<open>
  Claim C1. Two completed todos, with ids 1 and 2, are cleared: both ids are in
  \<open>deletingTodoIds\<close> and two calls are in flight. The call for id 1 settles first. Its
  \<open>finally\<close> callback empties \<open>deletingTodoIds\<close> although the call for id 2 is still in
  flight: the reset does not wait for the batch.
\<close>

theorem clearCompleted_first_settlement_empties_deletingTodoIds:
  "deletingTodoIds batch = [1, 2]
   \<and> in_flight batch = [ClearChain 1, ClearChain 2]
   \<and> map_option (\<lambda>(a, out). (deletingTodoIds a, in_flight a, out)) (settle 0 Deleted batch)
       = Some ([], [ClearChain 2], Fulfilled)"
  by (simp add: batch_def handleClearCompletedTodos_def settle_def remove_nth_def chain_defs
      sample_defs focus_input_def)

section \<open>Errors\<close>

text \<open>
  Claim C2, as stated, fails: the call of a delete intent fails, and the promise that
  \<open>handleDeleteTodo\<close> returned to its caller rejects.
\<close>

theorem failed_delete_rejects_returned_promise:
  "map_option snd (settle 0 (Failed (js_lit ''503'')) (handleDeleteTodo 1 loaded))
     = Some (Rejected (JSError (js_lit ''503'')))"
  by (simp add: handleDeleteTodo_def settle_def remove_nth_def chain_defs sample_defs)

text \<open>
  Claim C2, amended. The failure of the call of an add or delete intent, and of each
  call of a batch, is caught by the chain, which shows the notification of the operation
  and throws again: the promise of the chain rejects with an \<open>Error\<close> that carries the
  failure, and fulfils only when the call succeeds. \<open>handleAddTodo\<close> on a title whose
  trimmed form is empty shows its notification and returns a promise that is already
  rejected; on another title it clears the message and returns the promise of the chain.
\<close>

theorem failures_are_notified_and_rethrown:
  "snd (settle_add (Inl error) a) = Rejected (JSError error)
   \<and> errorMessage (fst (settle_add (Inl error) a)) = js_lit ''Unable to add a todo''
   \<and> \<not> isNotificationHidden (fst (settle_add (Inl error) a))
   \<and> snd (settle_add (Inr newTodo) a) = Fulfilled
   \<and> snd (settle_delete todoId (Inl error) a) = Rejected (JSError error)
   \<and> errorMessage (fst (settle_delete todoId (Inl error) a)) = js_lit ''Unable to delete a todo''
   \<and> \<not> isNotificationHidden (fst (settle_delete todoId (Inl error) a))
   \<and> snd (settle_delete todoId (Inr ()) a) = Fulfilled
   \<and> snd (settle_clear todoId (Inl error) a) = Rejected (JSError error)
   \<and> errorMessage (fst (settle_clear todoId (Inl error) a)) = js_lit ''Unable to delete a todo''
   \<and> \<not> isNotificationHidden (fst (settle_clear todoId (Inl error) a))
   \<and> snd (settle_clear todoId (Inr ()) a) = Fulfilled
   \<and> snd (handleAddTodo title_in a) =
       (if trim title_in = []
        then Some (Rejected (JSString (js_lit ''Title is empty''))) else None)
   \<and> errorMessage (fst (handleAddTodo title_in a)) =
       (if trim title_in = [] then js_lit ''Title should not be empty'' else [])"
  by (simp add: chain_defs handleAddTodo_def Let_def)

section \<open>The notification timer\<close>















section \<open>The ids being deleted\<close>

text \<open>
  Claim C4, as stated, fails: while the delete of id 1 is in flight, with 1 in
  \<open>deletingTodoIds\<close>, the delete of id 2 is requested; id 1 is no longer in
  \<open>deletingTodoIds\<close>, though both calls are in flight.
\<close>

theorem second_delete_drops_first_id:
  "1 \<in> set (deletingTodoIds (handleDeleteTodo 1 loaded))
   \<and> 1 \<notin> set (deletingTodoIds (handleDeleteTodo 2 (handleDeleteTodo 1 loaded)))
   \<and> in_flight (handleDeleteTodo 2 (handleDeleteTodo 1 loaded)) = [DeleteChain 1, DeleteChain 2]"
  by (simp add: handleDeleteTodo_def loaded_fields)

text \<open>
  Claim C4, amended. In every state, \<open>handleDeleteTodo\<close> at once sets \<open>deletingTodoIds\<close> to
  the list of the one id it is given: that id is in it, and no other id stays in it.
\<close>

theorem delete_sets_deletingTodoIds_to_that_id:
  "deletingTodoIds (handleDeleteTodo todoId a) = [todoId]
   \<and> todoId \<in> set (deletingTodoIds (handleDeleteTodo todoId a))
   \<and> set (deletingTodoIds (handleDeleteTodo todoId a)) = {todoId}"
  by (simp add: handleDeleteTodo_def)

end
